theory Spec2Isabelle
  imports Complex_Main
begin

unbundle bit_operations_syntax

section \<open>Module constants of digitalScope.py\<close>

type_synonym point = "int \<times> int"

text \<open>A colour is the BGR triple handed to the drawing primitives.\<close>

type_synonym color = "int \<times> int \<times> int"

definition CROSSHAIR_COLOR :: color where
  "CROSSHAIR_COLOR = (0, 0, 255)"

definition CROSSHAIR_CENTER_SPACE :: int where
  "CROSSHAIR_CENTER_SPACE = 10"

definition CROSSHAIR_ACCENT1_LENGTH :: int where
  "CROSSHAIR_ACCENT1_LENGTH = 21"

definition CROSSHAIR_ACCENT2_LENGTH :: int where
  "CROSSHAIR_ACCENT2_LENGTH = 20"

definition CV_CAP_PROP_FPS :: int where
  "CV_CAP_PROP_FPS = 5"

definition CV_CAP_PROP_FRAME_WIDTH :: int where
  "CV_CAP_PROP_FRAME_WIDTH = 3"

definition CV_CAP_PROP_FRAME_HEIGHT :: int where
  "CV_CAP_PROP_FRAME_HEIGHT = 4"

definition TITLE :: string where
  "TITLE = ''Digital Scope - Q to quit.''"

text \<open>
  The three event codes of the display library that the mouse callback compares against
  (\<open>cv2.EVENT_MOUSEMOVE\<close>, \<open>cv2.EVENT_LBUTTONDOWN\<close>, \<open>cv2.EVENT_LBUTTONUP\<close>). Every other
  code (right button, wheel, double click) falls through the \<open>if\<close>/\<open>elif\<close> chain.
\<close>

definition EVENT_MOUSEMOVE :: int where
  "EVENT_MOUSEMOVE = 0"

definition EVENT_LBUTTONDOWN :: int where
  "EVENT_LBUTTONDOWN = 1"

definition EVENT_LBUTTONUP :: int where
  "EVENT_LBUTTONUP = 4"


section \<open>Pointer state: the module globals written by the mouse callback\<close>

text \<open>
  \<open>crossHairX\<close>, \<open>crossHairY\<close> and \<open>mouseDown\<close> are module-level variables; the callback
  and \<open>setCrossHair\<close> reach them through \<open>global\<close>. The model passes them as a record.
  The callback stores the coordinates it is given and never computes with them, so the
  record leaves their type open: the display layer delivers ints, and the script's own
  globals hold Python numbers (see the start-up section).
\<close>

record 'n pointer =
  crossHairX :: 'n
  crossHairY :: 'n
  mouseDown :: bool

text \<open>
  \<open>setCrossHair(mouseX, mouseY, mouseDown)\<close>: the parameter \<open>mouseDown\<close> shadows the
  global of the same name; an early \<open>return\<close> when it is false, otherwise both
  coordinates are stored (\<open>crossHairY\<close> first, as in the source).
\<close>

definition setCrossHair :: "'n \<Rightarrow> 'n \<Rightarrow> bool \<Rightarrow> 'n pointer \<Rightarrow> 'n pointer" where
  "setCrossHair mouseX mouseY mouseDown' g =
     (if \<not> mouseDown' then g
      else g\<lparr>crossHairY := mouseY, crossHairX := mouseX\<rparr>)"

text \<open>
  \<open>getMouseCoordinates(event, x, y, flags, param)\<close>: \<open>flags\<close> and \<open>param\<close> are required by
  the callback signature and never read.
\<close>

definition getMouseCoordinates ::
    "int \<Rightarrow> 'n \<Rightarrow> 'n \<Rightarrow> 'fl \<Rightarrow> 'pa \<Rightarrow> 'n pointer \<Rightarrow> 'n pointer" where
  "getMouseCoordinates event x y flags param g =
     (if event = EVENT_LBUTTONDOWN then
        (let g1 = g\<lparr>mouseDown := True\<rparr> in setCrossHair x y (mouseDown g1) g1)
      else if event = EVENT_LBUTTONUP then g\<lparr>mouseDown := False\<rparr>
      else if event = EVENT_MOUSEMOVE then setCrossHair x y (mouseDown g) g
      else g)"

text \<open>
  A pointer event as the display layer delivers it: the event code and the position.
  Replaying a sequence calls the callback once per event, in order.
\<close>

type_synonym 'n pointer_event = "int \<times> 'n \<times> 'n"

definition deliver :: "'n pointer_event \<Rightarrow> 'n pointer \<Rightarrow> 'n pointer" where
  "deliver ev g = getMouseCoordinates (fst ev) (fst (snd ev)) (snd (snd ev)) () () g"

definition replay :: "'n pointer_event list \<Rightarrow> 'n pointer \<Rightarrow> 'n pointer" where
  "replay evs g = fold deliver evs g"

subsection \<open>The replay property as the specification words it\<close>

text \<open>
  These definitions follow the specification, not the callback: they look at the event
  sequence alone. The drag flag after a sequence is decided by its last button event
  (PRESS sets it, RELEASE clears it, initially false). An event positions the crosshair
  when it is a PRESS, or a MOVE that arrives while the flag left by the events before it
  is true. The specified crosshair is the position of the last such event, and the
  starting position when there is none.
\<close>

definition is_press :: "'n pointer_event \<Rightarrow> bool" where
  "is_press ev = (fst ev = EVENT_LBUTTONDOWN)"

definition is_release :: "'n pointer_event \<Rightarrow> bool" where
  "is_release ev = (fst ev = EVENT_LBUTTONUP)"

definition is_move :: "'n pointer_event \<Rightarrow> bool" where
  "is_move ev = (fst ev = EVENT_MOUSEMOVE)"

definition is_button :: "'n pointer_event \<Rightarrow> bool" where
  "is_button ev = (is_press ev \<or> is_release ev)"

definition spec_dragging :: "'n pointer_event list \<Rightarrow> bool" where
  "spec_dragging evs =
     (case filter is_button (rev evs) of [] \<Rightarrow> False | b # _ \<Rightarrow> is_press b)"

definition positions :: "'n pointer_event list \<Rightarrow> nat \<Rightarrow> bool" where
  "positions evs i =
     (is_press (evs ! i) \<or> (is_move (evs ! i) \<and> spec_dragging (take i evs)))"

definition spec_crosshair :: "'n \<times> 'n \<Rightarrow> 'n pointer_event list \<Rightarrow> 'n \<times> 'n" where
  "spec_crosshair origin evs =
     (case filter (positions evs) (rev [0..<length evs]) of
        [] \<Rightarrow> origin
      | i # _ \<Rightarrow> snd (evs ! i))"


section \<open>Overlay renderer\<close>

text \<open>
  \<open>cv2.line\<close> and \<open>cv2.circle\<close> belong to the drawing library, not to this program, so
  the renderer takes them as parameters \<open>line\<close> and \<open>circle\<close> over an arbitrary canvas
  type \<open>'f\<close> (whatever value the caller passes as \<open>frame\<close>). A primitive either returns the
  canvas it drew on or raises; an exception raised inside \<open>renderCrossHair\<close> is not caught
  there and ends the call. The library draws into the array it is given and returns that
  array; the model returns the drawn canvas as a value.
\<close>

text \<open>
  The two ways the library calls of this program raise: an argument the binding cannot
  convert (\<open>BadArgument\<close>: a float, or an int outside the range of a C int, where an
  integer is expected), and an image that cannot be shown (\<open>BadImage\<close>).
\<close>

datatype error = BadImage | BadArgument

definition bind_err :: "error + 'a \<Rightarrow> ('a \<Rightarrow> error + 'b) \<Rightarrow> error + 'b" where
  "bind_err r k = (case r of Inl e \<Rightarrow> Inl e | Inr v \<Rightarrow> k v)"

type_synonym 'f line_prim = "'f \<Rightarrow> point \<Rightarrow> point \<Rightarrow> color \<Rightarrow> int \<Rightarrow> error + 'f"
type_synonym 'f circle_prim = "'f \<Rightarrow> point \<Rightarrow> int \<Rightarrow> color \<Rightarrow> int \<Rightarrow> error + 'f"

definition renderLine ::
    "'f line_prim \<Rightarrow> 'f \<Rightarrow> point \<Rightarrow> point \<Rightarrow> color \<Rightarrow> int \<Rightarrow> error + 'f" where
  "renderLine line image' point1 point2 color thickness =
     line image' point1 point2 color thickness"

definition renderCircle ::
    "'f circle_prim \<Rightarrow> 'f \<Rightarrow> point \<Rightarrow> int \<Rightarrow> color \<Rightarrow> int \<Rightarrow> error + 'f" where
  "renderCircle circle image' center radius color thickness =
     circle image' center radius color thickness"

text \<open>
  \<open>renderCrossHair(frame, crossHairX, crossHairY, imageWidth, imageHeight)\<close>: nine calls,
  each drawing on the result of the one before. The parameters \<open>crossHairX\<close> and
  \<open>crossHairY\<close> shadow the globals; the function reads no global but the constants.
\<close>

definition renderCrossHair ::
    "'f line_prim \<Rightarrow> 'f circle_prim \<Rightarrow> 'f \<Rightarrow> int \<Rightarrow> int \<Rightarrow> int \<Rightarrow> int \<Rightarrow> error + 'f" where
  "renderCrossHair line circle frame crossHairX' crossHairY' imageWidth' imageHeight' =
     bind_err (renderLine line frame
                 (0, crossHairY')
                 (crossHairX' - CROSSHAIR_CENTER_SPACE, crossHairY')
                 CROSSHAIR_COLOR 1) (\<lambda>img.
     bind_err (renderLine line img
                 (crossHairX' + CROSSHAIR_CENTER_SPACE, crossHairY')
                 (imageWidth' - 1, crossHairY')
                 CROSSHAIR_COLOR 1) (\<lambda>img.
     bind_err (renderLine line img
                 (crossHairX', 0)
                 (crossHairX', crossHairY' - CROSSHAIR_CENTER_SPACE)
                 CROSSHAIR_COLOR 1) (\<lambda>img.
     bind_err (renderLine line img
                 (crossHairX', crossHairY' + CROSSHAIR_CENTER_SPACE)
                 (crossHairX', imageHeight' - 1)
                 CROSSHAIR_COLOR 1) (\<lambda>img.
     bind_err (renderCircle circle img
                 (crossHairX', crossHairY')
                 1
                 CROSSHAIR_COLOR (- 1)) (\<lambda>img.
     bind_err (renderLine line img
                 (0, crossHairY')
                 (CROSSHAIR_ACCENT2_LENGTH, crossHairY')
                 CROSSHAIR_COLOR 3) (\<lambda>img.
     bind_err (renderLine line img
                 (imageWidth' - CROSSHAIR_ACCENT1_LENGTH, crossHairY')
                 (imageWidth' - 1, crossHairY')
                 CROSSHAIR_COLOR 3) (\<lambda>img.
     bind_err (renderLine line img
                 (crossHairX', 0)
                 (crossHairX', CROSSHAIR_ACCENT2_LENGTH)
                 CROSSHAIR_COLOR 3) (\<lambda>img.
     bind_err (renderLine line img
                 (crossHairX', imageHeight' - CROSSHAIR_ACCENT1_LENGTH)
                 (crossHairX', imageHeight' - 1)
                 CROSSHAIR_COLOR 3) (\<lambda>img.
     Inr img)))))))))"

subsection \<open>The recording canvas\<close>

text \<open>
  A canvas that draws nothing and keeps the list of the primitive calls made on it, in
  order, with their arguments. Running \<open>renderCrossHair\<close> on it shows what the function
  asks of the drawing library, whatever that library then paints.
\<close>

datatype stroke =
    Line point point color int
  | Circle point int color int

definition record_line :: "stroke list line_prim" where
  "record_line calls p1 p2 col t = Inr (calls @ [Line p1 p2 col t])"

definition record_circle :: "stroke list circle_prim" where
  "record_circle calls c r col t = Inr (calls @ [Circle c r col t])"

definition strokes :: "int \<Rightarrow> int \<Rightarrow> int \<Rightarrow> int \<Rightarrow> stroke list" where
  "strokes x y w h =
     (case renderCrossHair record_line record_circle [] x y w h of
        Inl e \<Rightarrow> []
      | Inr calls \<Rightarrow> calls)"

fun stroke_thickness :: "stroke \<Rightarrow> int" where
  "stroke_thickness (Line p1 p2 col t) = t"
| "stroke_thickness (Circle c r col t) = t"

fun stroke_color :: "stroke \<Rightarrow> color" where
  "stroke_color (Line p1 p2 col t) = col"
| "stroke_color (Circle c r col t) = col"

fun is_line :: "stroke \<Rightarrow> bool" where
  "is_line (Line p1 p2 col t) = True"
| "is_line (Circle c r col t) = False"

fun is_thin_line :: "stroke \<Rightarrow> bool" where
  "is_thin_line (Line p1 p2 col t) = (t = 1)"
| "is_thin_line (Circle c r col t) = False"

fun is_accent :: "stroke \<Rightarrow> bool" where
  "is_accent (Line p1 p2 col t) = (t = 3)"
| "is_accent (Circle c r col t) = False"

text \<open>The 1px arms and the 3px accent ticks among the calls of one rendering.\<close>

definition arms :: "int \<Rightarrow> int \<Rightarrow> int \<Rightarrow> int \<Rightarrow> stroke list" where
  "arms x y w h = filter is_thin_line (strokes x y w h)"

definition accent_ticks :: "int \<Rightarrow> int \<Rightarrow> int \<Rightarrow> int \<Rightarrow> stroke list" where
  "accent_ticks x y w h = filter is_accent (strokes x y w h)"

text \<open>
  Two measures of how long a segment is: the distance between its end points, and the
  number of pixel positions from one end point to the other, both included.
\<close>

fun stroke_span :: "stroke \<Rightarrow> int" where
  "stroke_span (Line p1 p2 col t) = max \<bar>fst p2 - fst p1\<bar> \<bar>snd p2 - snd p1\<bar>"
| "stroke_span (Circle c r col t) = 0"

definition stroke_pixels :: "stroke \<Rightarrow> int" where
  "stroke_pixels s = stroke_span s + 1"

text \<open>
  Replaying a list of recorded calls on any canvas, stopping at the first call that
  raises.
\<close>

fun apply_stroke :: "'f line_prim \<Rightarrow> 'f circle_prim \<Rightarrow> stroke \<Rightarrow> 'f \<Rightarrow> error + 'f" where
  "apply_stroke line circle (Line p1 p2 col t) img = line img p1 p2 col t"
| "apply_stroke line circle (Circle c r col t) img = circle img c r col t"

fun run_strokes :: "'f line_prim \<Rightarrow> 'f circle_prim \<Rightarrow> stroke list \<Rightarrow> 'f \<Rightarrow> error + 'f" where
  "run_strokes line circle [] img = Inr img"
| "run_strokes line circle (s # ss) img =
     bind_err (apply_stroke line circle s img) (run_strokes line circle ss)"


section \<open>A reference canvas\<close>

text \<open>
  To run the renderer on pixels this section models the library calls the script makes,
  as the library behaves on the arguments of this program.
  \<^item> A frame value is \<open>None\<close> (what a failed acquisition leaves behind) or an image; an
    image maps each of its pixel positions (column, row) to a colour and every other
    position to \<open>None\<close>, so drawing is clipped to the image.
  \<^item> The binding converts every integer argument to a C int and raises when one does not
    fit.
  \<^item> A drawing call on a null frame draws nothing, raises nothing and returns the null
    frame.
  \<^item> A line of thickness 1 paints the lattice points of the closed segment between its
    end points, whatever their order; for the axis-parallel segments of this program
    these are all pixels from one end point to the other. A thicker line paints every
    pixel within \<open>(t + 1) div 2\<close> of such a point: at thickness 3 two pixels to either
    side of the segment, with rounded ends.
  \<^item> A circle of negative thickness paints the filled disc.
  \<^item> \<open>imshow\<close> raises on a null or empty image.
\<close>

type_synonym image = "point \<Rightarrow> color option"

definition c_int :: "int \<Rightarrow> bool" where
  "c_int v = (- 2147483648 \<le> v \<and> v \<le> 2147483647)"

fun stroke_args_ok :: "stroke \<Rightarrow> bool" where
  "stroke_args_ok (Line p1 p2 col t) =
     (c_int (fst p1) \<and> c_int (snd p1) \<and> c_int (fst p2) \<and> c_int (snd p2) \<and> c_int t)"
| "stroke_args_ok (Circle c r col t) =
     (c_int (fst c) \<and> c_int (snd c) \<and> c_int r \<and> c_int t)"

definition between :: "int \<Rightarrow> int \<Rightarrow> int \<Rightarrow> bool" where
  "between a b v = (min a b \<le> v \<and> v \<le> max a b)"

definition on_segment :: "point \<Rightarrow> point \<Rightarrow> point \<Rightarrow> bool" where
  "on_segment p1 p2 s =
     (between (fst p1) (fst p2) (fst s) \<and> between (snd p1) (snd p2) (snd s)
      \<and> (fst s - fst p1) * (snd p2 - snd p1) = (snd s - snd p1) * (fst p2 - fst p1))"

definition reach :: "int \<Rightarrow> int" where
  "reach t = (if t \<le> 1 then 0 else (t + 1) div 2)"

definition in_stroke :: "point \<Rightarrow> point \<Rightarrow> int \<Rightarrow> point \<Rightarrow> bool" where
  "in_stroke p1 p2 r q =
     list_ex (\<lambda>sx.
        list_ex (\<lambda>sy. on_segment p1 p2 (sx, sy)
                       \<and> (fst q - sx)\<^sup>2 + (snd q - sy)\<^sup>2 \<le> r\<^sup>2)
          [snd q - r..snd q + r])
       [fst q - r..fst q + r]"

definition in_disc :: "point \<Rightarrow> int \<Rightarrow> point \<Rightarrow> bool" where
  "in_disc c r q = (0 \<le> r \<and> (fst q - fst c)\<^sup>2 + (snd q - snd c)\<^sup>2 \<le> r\<^sup>2)"

definition in_ring :: "point \<Rightarrow> int \<Rightarrow> int \<Rightarrow> point \<Rightarrow> bool" where
  "in_ring c r t q = (in_disc c (r + reach t) q \<and> \<not> in_disc c (r - reach t - 1) q)"

definition paint :: "image \<Rightarrow> (point \<Rightarrow> bool) \<Rightarrow> color \<Rightarrow> image" where
  "paint m P col =
     (\<lambda>q. case m q of None \<Rightarrow> None | Some old \<Rightarrow> Some (if P q then col else old))"

definition cv_line :: "image option line_prim" where
  "cv_line fr p1 p2 col t =
     (if stroke_args_ok (Line p1 p2 col t) then
        (case fr of
           None \<Rightarrow> Inr None
         | Some m \<Rightarrow> Inr (Some (paint m (in_stroke p1 p2 (reach t)) col)))
      else Inl BadArgument)"

definition cv_circle :: "image option circle_prim" where
  "cv_circle fr c r col t =
     (if stroke_args_ok (Circle c r col t) then
        (case fr of
           None \<Rightarrow> Inr None
         | Some m \<Rightarrow>
             Inr (Some (paint m (if t < 0 then in_disc c r else in_ring c r t) col)))
      else Inl BadArgument)"

text \<open>
  \<open>imshow(title, img)\<close>. An image with no pixel has none at the origin, images being
  rectangles of positions from (0, 0) on.
\<close>

definition cv_imshow :: "string \<Rightarrow> image option \<Rightarrow> error + unit" where
  "cv_imshow title fr =
     (case fr of
        None \<Rightarrow> Inl BadImage
      | Some m \<Rightarrow> (case m (0, 0) of None \<Rightarrow> Inl BadImage | Some c \<Rightarrow> Inr ()))"

text \<open>The pixels a recorded call paints on the reference canvas.\<close>

fun covers :: "stroke \<Rightarrow> point \<Rightarrow> bool" where
  "covers (Line p1 p2 col t) q = in_stroke p1 p2 (reach t) q"
| "covers (Circle c r col t) q = (if t < 0 then in_disc c r q else in_ring c r t q)"

definition black :: color where
  "black = (0, 0, 0)"

definition blank :: "int \<Rightarrow> int \<Rightarrow> color \<Rightarrow> image" where
  "blank w h col =
     (\<lambda>q. if 0 \<le> fst q \<and> fst q < w \<and> 0 \<le> snd q \<and> snd q < h then Some col else None)"

definition pixel_of :: "image option \<Rightarrow> point \<Rightarrow> color option" where
  "pixel_of fr q = (case fr of None \<Rightarrow> None | Some m \<Rightarrow> m q)"

text \<open>The pixel at a position after a call: \<open>None\<close> when the call raised.\<close>

definition result_pixel :: "error + image option \<Rightarrow> point \<Rightarrow> color option" where
  "result_pixel r q = (case r of Inl e \<Rightarrow> None | Inr fr \<Rightarrow> pixel_of fr q)"

definition has_size :: "image \<Rightarrow> int \<Rightarrow> int \<Rightarrow> bool" where
  "has_size m w h =
     (\<forall>q. (m q \<noteq> None) = (0 \<le> fst q \<and> fst q < w \<and> 0 \<le> snd q \<and> snd q < h))"

subsection \<open>Notions used to state the renderer's properties\<close>

text \<open>
  \<open>near_box p1 p2 r\<close>: the positions at most \<open>r\<close> away, in both coordinates, from the
  axis-parallel box spanned by \<open>p1\<close> and \<open>p2\<close>. \<open>stroke_reach\<close> is the box around a call's
  arguments that holds every pixel the call can paint.
\<close>

definition near_box :: "point \<Rightarrow> point \<Rightarrow> int \<Rightarrow> point \<Rightarrow> bool" where
  "near_box p1 p2 r q =
     (min (fst p1) (fst p2) - r \<le> fst q \<and> fst q \<le> max (fst p1) (fst p2) + r
      \<and> min (snd p1) (snd p2) - r \<le> snd q \<and> snd q \<le> max (snd p1) (snd p2) + r)"

fun stroke_reach :: "stroke \<Rightarrow> point \<Rightarrow> bool" where
  "stroke_reach (Line p1 p2 col t) q = near_box p1 p2 (reach t) q"
| "stroke_reach (Circle c r col t) q = near_box c c (if t < 0 then r else r + reach t) q"




text \<open>
  Two calls have the same outcome when both raise the same error or both return canvases
  with the same content, \<open>content\<close> being what an observer reads off a canvas.
\<close>

definition same_outcome :: "('f \<Rightarrow> 'c) \<Rightarrow> error + 'f \<Rightarrow> error + 'f \<Rightarrow> bool" where
  "same_outcome content r1 r2 =
     (case r1 of
        Inl e1 \<Rightarrow> (case r2 of Inl e2 \<Rightarrow> e1 = e2 | Inr b \<Rightarrow> False)
      | Inr a \<Rightarrow> (case r2 of Inl e2 \<Rightarrow> False | Inr b \<Rightarrow> content a = content b))"


section \<open>Frame buffer: class VideoStream\<close>

text \<open>
  \<open>cv2.VideoCapture\<close> is the camera library's object. The model keeps of it what this
  program asks: whether it is open, whether \<open>open(0)\<close> would succeed, what its successive
  \<open>read()\<close> calls return (a flag and a frame value), how many reads were served, and what
  \<open>get(propId)\<close> answers (a float in the source; the values are exact here).
\<close>

record 'f cv_capture =
  opened :: bool
  reopens :: bool
  acquisitions :: "nat \<Rightarrow> bool \<times> 'f"
  served :: nat
  properties :: "int \<Rightarrow> rat"

definition cap_isOpened :: "'f cv_capture \<Rightarrow> bool" where
  "cap_isOpened c = opened c"

definition cap_open :: "'f cv_capture \<Rightarrow> 'f cv_capture" where
  "cap_open c = c\<lparr>opened := reopens c\<rparr>"

definition cap_read :: "'f cv_capture \<Rightarrow> (bool \<times> 'f) \<times> 'f cv_capture" where
  "cap_read c = (acquisitions c (served c), c\<lparr>served := served c + 1\<rparr>)"

definition cap_get :: "'f cv_capture \<Rightarrow> int \<Rightarrow> rat" where
  "cap_get c prop = properties c prop"

definition cap_release :: "'f cv_capture \<Rightarrow> 'f cv_capture" where
  "cap_release c = c\<lparr>opened := False\<rparr>"

record 'f VideoStream =
  stream :: "'f cv_capture"
  grabbed :: bool
  frame :: 'f
  stopped :: bool

text \<open>
  \<open>__init__\<close>: \<open>grabbed\<close> and \<open>frame\<close> are set to \<open>None\<close> and overwritten at once by the
  first \<open>read()\<close>, so the record starts from that read.
\<close>

definition VideoStream_init :: "'f cv_capture \<Rightarrow> 'f VideoStream" where
  "VideoStream_init device =
     (let (r, device') = cap_read device
      in \<lparr>stream = device', grabbed = fst r, frame = snd r, stopped = False\<rparr>)"

text \<open>\<open>start\<close> launches \<open>update\<close> on a thread of its own and returns \<open>self\<close>.\<close>

definition start :: "'f VideoStream \<Rightarrow> 'f VideoStream" where
  "start self = self"

text \<open>
  \<open>update\<close> is \<open>while True: if self.stopped: return; self.grabbed, self.frame =
  self.stream.read()\<close>. It runs beside the render loop for as long as \<open>stopped\<close> is false;
  \<open>update n\<close> is the object after the thread has gone through n rounds of the loop.
\<close>

fun update :: "nat \<Rightarrow> 'f VideoStream \<Rightarrow> 'f VideoStream" where
  "update 0 self = self"
| "update (Suc n) self =
     (if stopped self then self
      else (let (r, device') = cap_read (stream self)
            in update n (self\<lparr>stream := device', grabbed := fst r, frame := snd r\<rparr>)))"

definition read :: "'f VideoStream \<Rightarrow> 'f" where
  "read self = frame self"

definition stop :: "'f VideoStream \<Rightarrow> 'f VideoStream" where
  "stop self = self\<lparr>stopped := True, stream := cap_release (stream self)\<rparr>"


section \<open>Start-up and render loop\<close>

text \<open>
  A Python number: an int or a float. The floats of this program are halves of ints
  small enough to be exact, so a rational stands for the float's value.
\<close>

datatype pynum = PyInt int | PyFloat rat

text \<open>\<open>int(v)\<close> on a float truncates towards zero.\<close>

definition py_int :: "rat \<Rightarrow> int" where
  "py_int v = (if 0 \<le> v then \<lfloor>v\<rfloor> else \<lceil>v\<rceil>)"

text \<open>
  \<open>a / b\<close> on two ints is true division: the result is a float, also when the quotient is
  a whole number. The only divisor in the script is the literal 2.
\<close>

definition py_truediv :: "int \<Rightarrow> int \<Rightarrow> pynum" where
  "py_truediv a b = PyFloat (rat_of_int a / rat_of_int b)"

definition defaultCrossHair :: "'f VideoStream \<Rightarrow> int \<times> int \<times> pynum \<times> pynum" where
  "defaultCrossHair capture' =
     (let imageWidth' = py_int (cap_get (stream capture') CV_CAP_PROP_FRAME_WIDTH);
          imageHeight' = py_int (cap_get (stream capture') CV_CAP_PROP_FRAME_HEIGHT);
          crossHairY' = py_truediv imageHeight' 2;
          crossHairX' = py_truediv imageWidth' 2
      in (imageWidth', imageHeight', crossHairX', crossHairY'))"

text \<open>
  The module-level variables of the script, and what the window shows (\<open>None\<close> until the
  first \<open>imshow\<close>). The crosshair globals hold the floats of \<open>defaultCrossHair\<close> until the
  callback stores the ints of a pointer event.
\<close>

record 'f scope =
  capture :: "'f VideoStream"
  imageWidth :: int
  imageHeight :: int
  mouse :: "pynum pointer"
  window :: "'f option"

text \<open>
  The statements from \<open>mouseDown = False\<close> to the call of \<open>defaultCrossHair\<close>. The result of
  \<open>open(0)\<close> is dropped, and no statement leaves the script: control always arrives at the
  \<open>while\<close> loop.
\<close>

definition startup :: "'f cv_capture \<Rightarrow> 'f scope" where
  "startup device =
     (let capture0 = start (VideoStream_init device);
          capture1 = (if \<not> cap_isOpened (stream capture0)
                      then capture0\<lparr>stream := cap_open (stream capture0)\<rparr>
                      else capture0);
          (w, h, x, y) = defaultCrossHair capture1
      in \<lparr>capture = capture1, imageWidth = w, imageHeight = h,
          mouse = \<lparr>crossHairX = x, crossHairY = y, mouseDown = False\<rparr>,
          window = None\<rparr>)"

text \<open>
  The call \<open>renderCrossHair(frame, crossHairX, crossHairY, imageWidth, imageHeight)\<close> of
  the loop, with the globals as they are. \<open>renderCrossHair\<close> is modelled on the int
  coordinates it documents. With a float coordinate its first drawing call passes the
  float as part of an end point (\<open>(0, crossHairY)\<close> and \<open>(crossHairX - 10, crossHairY)\<close>),
  and the library refuses the argument, whatever the frame is.
\<close>

fun render_at ::
    "'f line_prim \<Rightarrow> 'f circle_prim \<Rightarrow> 'f \<Rightarrow> pynum \<Rightarrow> pynum \<Rightarrow> int \<Rightarrow> int \<Rightarrow> error + 'f" where
  "render_at line circle fr (PyInt x) (PyInt y) w h = renderCrossHair line circle fr x y w h"
| "render_at line circle fr (PyInt x) (PyFloat y) w h = Inl BadArgument"
| "render_at line circle fr (PyFloat x) y w h = Inl BadArgument"

text \<open>
  One pass through the body of \<open>while True\<close>. What the rest of the world does meanwhile
  comes in as a \<open>turn\<close>: how many rounds the acquisition thread completed since the last
  pass, the pointer events the display layer dispatches during \<open>waitKey\<close> (with int
  positions), and the key code \<open>waitKey\<close> returns. \<open>imshow\<close> is a library call like the
  drawing primitives and a parameter like them. An exception from the renderer or from
  \<open>imshow\<close> is not caught and ends the script; \<open>break\<close> leaves the loop. The library
  draws into the array it is given and returns it, so after the rendering \<open>capture.frame\<close>
  is the drawn frame, until the acquisition thread replaces it.
\<close>

datatype 'f outcome = Crashed error | Quit "'f scope" | Running "'f scope"

type_synonym turn = "nat \<times> int pointer_event list \<times> int"

type_synonym 'f show_prim = "string \<Rightarrow> 'f \<Rightarrow> error + unit"

definition ord_q :: int where
  "ord_q = 113"

definition from_display :: "int pointer_event \<Rightarrow> pynum pointer_event" where
  "from_display ev = (fst ev, PyInt (fst (snd ev)), PyInt (snd (snd ev)))"

definition iteration ::
    "'f line_prim \<Rightarrow> 'f circle_prim \<Rightarrow> 'f show_prim \<Rightarrow> turn \<Rightarrow> 'f scope \<Rightarrow> 'f outcome" where
  "iteration line circle imshow turn s =
     (let s1 = s\<lparr>capture := update (fst turn) (capture s)\<rparr>;
          frame' = read (capture s1)
      in case render_at line circle frame'
                (crossHairX (mouse s1)) (crossHairY (mouse s1))
                (imageWidth s1) (imageHeight s1) of
           Inl e \<Rightarrow> Crashed e
         | Inr img \<Rightarrow>
             (case imshow TITLE img of
                Inl e \<Rightarrow> Crashed e
              | Inr u \<Rightarrow>
                  (let s2 = s1\<lparr>capture := (capture s1)\<lparr>frame := img\<rparr>, window := Some img\<rparr>;
                       s3 = s2\<lparr>mouse := replay (map from_display (fst (snd turn))) (mouse s2)\<rparr>
                   in if snd (snd turn) AND 0xFF = ord_q then Quit s3 else Running s3)))"

text \<open>
  The loop over the turns that have happened so far; when they are used up the loop is
  still running.
\<close>

fun main_loop ::
    "'f line_prim \<Rightarrow> 'f circle_prim \<Rightarrow> 'f show_prim \<Rightarrow> turn list \<Rightarrow> 'f scope \<Rightarrow> 'f outcome" where
  "main_loop line circle imshow [] s = Running s"
| "main_loop line circle imshow (t # ts) s =
     (case iteration line circle imshow t s of
        Crashed e \<Rightarrow> Crashed e
      | Quit s' \<Rightarrow> Quit s'
      | Running s' \<Rightarrow> main_loop line circle imshow ts s')"

text \<open>The whole script: start-up, the loop, and the clean-up after \<open>break\<close>.\<close>

definition main ::
    "'f line_prim \<Rightarrow> 'f circle_prim \<Rightarrow> 'f show_prim \<Rightarrow> 'f cv_capture \<Rightarrow> turn list
       \<Rightarrow> 'f outcome" where
  "main line circle imshow device turns =
     (case main_loop line circle imshow turns (startup device) of
        Crashed e \<Rightarrow> Crashed e
      | Quit s \<Rightarrow> Quit (s\<lparr>capture := stop (capture s), window := None\<rparr>)
      | Running s \<Rightarrow> Running s)"



subsection \<open>Cameras and a loop state\<close>

text \<open>
  A camera that cannot be opened: it is closed, \<open>open(0)\<close> fails, every read returns
  \<open>(False, None)\<close> and every property reads 0. A 640 by 480 camera that delivers one
  frame and fails from then on, and the same camera reporting 641 by 481.
\<close>

definition dead_camera :: "image option cv_capture" where
  "dead_camera =
     \<lparr>opened = False, reopens = False, acquisitions = (\<lambda>n. (False, None)),
      served = 0, properties = (\<lambda>p. 0)\<rparr>"

definition failing_camera :: "image option cv_capture" where
  "failing_camera =
     \<lparr>opened = True, reopens = True,
      acquisitions = (\<lambda>n. if n = 0 then (True, Some (blank 640 480 black)) else (False, None)),
      served = 0,
      properties = (\<lambda>p. if p = CV_CAP_PROP_FRAME_WIDTH then 640
                          else if p = CV_CAP_PROP_FRAME_HEIGHT then 480 else 0)\<rparr>"

definition odd_camera :: "image option cv_capture" where
  "odd_camera =
     \<lparr>opened = True, reopens = True,
      acquisitions = (\<lambda>n. if n = 0 then (True, Some (blank 641 481 black)) else (False, None)),
      served = 0,
      properties = (\<lambda>p. if p = CV_CAP_PROP_FRAME_WIDTH then 641
                          else if p = CV_CAP_PROP_FRAME_HEIGHT then 481 else 0)\<rparr>"



fun crashed :: "'f outcome \<Rightarrow> bool" where
  "crashed (Crashed e) = True"
| "crashed (Quit s) = False"
| "crashed (Running s) = False"


section \<open>Pointer state: replay agrees with the specification\<close>

lemma spec_dragging_Nil: "spec_dragging [] = False"
  by (simp add: spec_dragging_def)

lemma spec_dragging_snoc:
  "spec_dragging (evs @ [ev]) =
     (if is_press ev then True else if is_release ev then False else spec_dragging evs)"
  by (simp add: spec_dragging_def is_button_def is_press_def is_release_def
      EVENT_LBUTTONDOWN_def EVENT_LBUTTONUP_def)

lemma positions_snoc_old:
  "i < length evs \<Longrightarrow> positions (evs @ [ev]) i = positions evs i"
  by (simp add: positions_def nth_append)

lemma positions_snoc_new:
  "positions (evs @ [ev]) (length evs) =
     (is_press ev \<or> (is_move ev \<and> spec_dragging evs))"
  by (simp add: positions_def)

lemma filter_positions_snoc:
  "filter (positions (evs @ [ev])) (rev [0..<length evs]) =
   filter (positions evs) (rev [0..<length evs])"
  by (rule filter_cong) (auto simp: positions_snoc_old)

lemma spec_crosshair_Nil: "spec_crosshair origin [] = origin"
  by (simp add: spec_crosshair_def)

lemma last_position_old:
  "(case filter P (rev [0..<length evs]) of [] \<Rightarrow> origin | i # _ \<Rightarrow> snd ((evs @ [ev]) ! i)) =
   (case filter P (rev [0..<length evs]) of [] \<Rightarrow> origin | i # _ \<Rightarrow> snd (evs ! i))"
proof (cases "filter P (rev [0..<length evs])")
  case Nil
  then show ?thesis by simp
next
  case (Cons i rest)
  then have "i \<in> set (filter P (rev [0..<length evs]))" by simp
  then have "i < length evs" by simp
  with Cons show ?thesis by (simp add: nth_append)
qed

lemma spec_crosshair_snoc:
  "spec_crosshair origin (evs @ [ev]) =
     (if is_press ev \<or> (is_move ev \<and> spec_dragging evs) then snd ev
      else spec_crosshair origin evs)"
  by (simp add: spec_crosshair_def positions_snoc_new filter_positions_snoc last_position_old)

lemma event_kinds_distinct:
  "is_press ev \<Longrightarrow> \<not> is_release ev" "is_press ev \<Longrightarrow> \<not> is_move ev"
  "is_release ev \<Longrightarrow> \<not> is_move ev"
  by (simp_all add: is_press_def is_release_def is_move_def
      EVENT_LBUTTONDOWN_def EVENT_LBUTTONUP_def EVENT_MOUSEMOVE_def)

lemma replay_snoc: "replay (evs @ [ev]) g = deliver ev (replay evs g)"
  by (simp add: replay_def)

lemma deliver_cases:
  "deliver ev g =
     (if is_press ev then g\<lparr>mouseDown := True, crossHairY := snd (snd ev), crossHairX := fst (snd ev)\<rparr>
      else if is_release ev then g\<lparr>mouseDown := False\<rparr>
      else if is_move ev \<and> mouseDown g then g\<lparr>crossHairY := snd (snd ev), crossHairX := fst (snd ev)\<rparr>
      else g)"
  by (simp add: deliver_def getMouseCoordinates_def setCrossHair_def Let_def
      is_press_def is_release_def is_move_def)

text \<open>
  C1. Replaying any sequence of pointer events through the callback, from any starting
  position with the drag flag false, leaves the crosshair at the position of the last
  PRESS or of the last MOVE delivered while dragging, whichever came later (at the
  starting position when no event positioned it), and leaves the drag flag as the last
  button event set it.
\<close>

theorem C1_replay_last_effective_event:
  "crossHairX (replay evs \<lparr>crossHairX = x0, crossHairY = y0, mouseDown = False\<rparr>)
     = fst (spec_crosshair (x0, y0) evs)
   \<and> crossHairY (replay evs \<lparr>crossHairX = x0, crossHairY = y0, mouseDown = False\<rparr>)
     = snd (spec_crosshair (x0, y0) evs)
   \<and> mouseDown (replay evs \<lparr>crossHairX = x0, crossHairY = y0, mouseDown = False\<rparr>)
     = spec_dragging evs"
proof -
  have "replay evs \<lparr>crossHairX = x0, crossHairY = y0, mouseDown = False\<rparr> =
          \<lparr>crossHairX = fst (spec_crosshair (x0, y0) evs),
           crossHairY = snd (spec_crosshair (x0, y0) evs),
           mouseDown = spec_dragging evs\<rparr>"
  proof (induction evs rule: rev_induct)
    case Nil
    show ?case by (simp add: replay_def spec_crosshair_Nil spec_dragging_Nil)
  next
    case (snoc ev evs)
    show ?case
      unfolding replay_snoc snoc.IH
      by (auto simp: deliver_cases spec_crosshair_snoc spec_dragging_snoc
          dest: event_kinds_distinct)
  qed
  then show ?thesis by simp
qed

section \<open>Overlay renderer: the calls it makes\<close>

lemma strokes_eq:
  "strokes x y w h =
     [Line (0, y) (x - 10, y) CROSSHAIR_COLOR 1,
      Line (x + 10, y) (w - 1, y) CROSSHAIR_COLOR 1,
      Line (x, 0) (x, y - 10) CROSSHAIR_COLOR 1,
      Line (x, y + 10) (x, h - 1) CROSSHAIR_COLOR 1,
      Circle (x, y) 1 CROSSHAIR_COLOR (- 1),
      Line (0, y) (20, y) CROSSHAIR_COLOR 3,
      Line (w - 21, y) (w - 1, y) CROSSHAIR_COLOR 3,
      Line (x, 0) (x, 20) CROSSHAIR_COLOR 3,
      Line (x, h - 21) (x, h - 1) CROSSHAIR_COLOR 3]"
  by (simp add: strokes_def renderCrossHair_def renderLine_def renderCircle_def
      bind_err_def record_line_def record_circle_def CROSSHAIR_CENTER_SPACE_def
      CROSSHAIR_ACCENT1_LENGTH_def CROSSHAIR_ACCENT2_LENGTH_def)

lemma renderCrossHair_run_strokes:
  "renderCrossHair line circle fr x y w h =
     run_strokes line circle (strokes x y w h) fr"
  by (simp add: strokes_eq renderCrossHair_def renderLine_def renderCircle_def
      CROSSHAIR_CENTER_SPACE_def CROSSHAIR_ACCENT1_LENGTH_def CROSSHAIR_ACCENT2_LENGTH_def
      bind_err_def split: sum.splits)

text \<open>
  C5, as the specification states it, fails: the tick at the left (top) edge and the tick
  at the right (bottom) edge are equally long, whether length is the distance between
  the end points or the number of pixel positions they enclose, so they are not 20 and
  21 long. Checked for a 640 by 480 frame with the crosshair at its centre.
\<close>

theorem C5_counterexample:
  "map stroke_span (accent_ticks 320 240 640 480) \<noteq> [20, 21, 20, 21]
   \<and> map stroke_pixels (accent_ticks 320 240 640 480) \<noteq> [20, 21, 20, 21]"
  by (simp add: accent_ticks_def strokes_eq stroke_pixels_def)

text \<open>
  C5, amended. The 3px lines among the calls are exactly four, in the crosshair colour:
  on row y from column 0 to column 20 and from column imageWidth - 21 to column
  imageWidth - 1, on column x from row 0 to row 20 and from row imageHeight - 21 to row
  imageHeight - 1. All four have end points 20 apart and enclose 21 pixel positions.
\<close>

theorem C5_accent_ticks:
  "accent_ticks x y w h =
     [Line (0, y) (20, y) CROSSHAIR_COLOR 3,
      Line (w - 21, y) (w - 1, y) CROSSHAIR_COLOR 3,
      Line (x, 0) (x, 20) CROSSHAIR_COLOR 3,
      Line (x, h - 21) (x, h - 1) CROSSHAIR_COLOR 3]
   \<and> map stroke_span (accent_ticks x y w h) = [20, 20, 20, 20]
   \<and> map stroke_pixels (accent_ticks x y w h) = [21, 21, 21, 21]"
  by (simp add: accent_ticks_def strokes_eq stroke_pixels_def)


section \<open>The reference canvas: what a rendering paints\<close>

lemma in_stroke_near_box: "in_stroke p1 p2 r q \<Longrightarrow> near_box p1 p2 r q"
  by (auto simp: in_stroke_def list_ex_iff on_segment_def between_def near_box_def)

lemma on_segment_in_stroke: "0 \<le> r \<Longrightarrow> on_segment p1 p2 q \<Longrightarrow> in_stroke p1 p2 r q"
  unfolding in_stroke_def list_ex_iff
  by (rule bexI[of _ "fst q"], rule bexI[of _ "snd q"]) simp_all

lemma in_stroke_thin: "in_stroke p1 p2 0 q = on_segment p1 p2 q"
  by (cases q) (simp add: in_stroke_def)

lemma in_disc_near_box: "in_disc c r q \<Longrightarrow> near_box c c r q"
proof -
  assume d: "in_disc c r q"
  then have r: "0 \<le> r" and le: "(fst q - fst c)\<^sup>2 + (snd q - snd c)\<^sup>2 \<le> r\<^sup>2"
    by (simp_all add: in_disc_def)
  have "(fst q - fst c)\<^sup>2 \<le> r\<^sup>2" "(snd q - snd c)\<^sup>2 \<le> r\<^sup>2"
    using le zero_le_power2[of "fst q - fst c"] zero_le_power2[of "snd q - snd c"] by linarith+
  then have "\<bar>fst q - fst c\<bar> \<le> r" "\<bar>snd q - snd c\<bar> \<le> r"
    using r by (simp_all add: abs_le_square_iff[symmetric])
  then show ?thesis by (simp add: near_box_def) linarith
qed

lemma covers_reach: "covers s q \<Longrightarrow> stroke_reach s q"
proof (cases s)
  case (Line p1 p2 col t)
  then show "covers s q \<Longrightarrow> stroke_reach s q" by (simp add: in_stroke_near_box)
next
  case (Circle c r col t)
  assume "covers s q"
  with Circle have "in_disc c (if t < 0 then r else r + reach t) q"
    by (simp add: in_ring_def split: if_splits)
  then show "stroke_reach s q" using Circle by (simp add: in_disc_near_box)
qed

lemma paint_paint: "paint (paint m P col) Q col = paint m (\<lambda>q. P q \<or> Q q) col"
  by (auto simp: paint_def fun_eq_iff split: option.splits)

lemma paint_none: "paint m (\<lambda>q. False) col = m"
  by (auto simp: paint_def fun_eq_iff split: option.splits)


lemma covers_Line: "covers (Line p1 p2 col t) = in_stroke p1 p2 (reach t)"
  by (rule ext) simp

lemma covers_Circle:
  "covers (Circle c r col t) = (if t < 0 then in_disc c r else in_ring c r t)"
  by (rule ext) simp

lemma apply_stroke_cv:
  "apply_stroke cv_line cv_circle s fr =
     (if stroke_args_ok s
      then Inr (case fr of None \<Rightarrow> None | Some m \<Rightarrow> Some (paint m (covers s) (stroke_color s)))
      else Inl BadArgument)"
  by (cases s; cases fr) (simp_all add: cv_line_def cv_circle_def covers_Line covers_Circle)

lemma run_strokes_cv:
  "list_all stroke_args_ok ss \<Longrightarrow> \<forall>s\<in>set ss. stroke_color s = col \<Longrightarrow>
   run_strokes cv_line cv_circle ss (Some m) =
     Inr (Some (paint m (\<lambda>q. \<exists>s\<in>set ss. covers s q) col))"
proof (induction ss arbitrary: m)
  case Nil
  show ?case by (simp add: paint_none)
next
  case (Cons s ss)
  have "paint (paint m (covers s) col) (\<lambda>q. \<exists>s\<in>set ss. covers s q) col
        = paint m (\<lambda>q. \<exists>t\<in>set (s # ss). covers t q) col"
    by (simp add: paint_paint)
  with Cons show ?case
    by (simp add: apply_stroke_cv bind_err_def)
qed

lemma run_strokes_cv_None:
  "list_all stroke_args_ok ss \<Longrightarrow> run_strokes cv_line cv_circle ss None = Inr None"
  by (induction ss) (simp_all add: apply_stroke_cv bind_err_def)

lemma run_strokes_cv_bad:
  "\<not> list_all stroke_args_ok ss \<Longrightarrow> run_strokes cv_line cv_circle ss fr = Inl BadArgument"
  by (induction ss arbitrary: fr) (auto simp: apply_stroke_cv bind_err_def)

lemma strokes_colour: "\<forall>s\<in>set (strokes x y w h). stroke_color s = CROSSHAIR_COLOR"
  by (simp add: strokes_eq)

lemma render_cv:
  "list_all stroke_args_ok (strokes x y w h) \<Longrightarrow>
   renderCrossHair cv_line cv_circle (Some m) x y w h =
     Inr (Some (paint m (\<lambda>q. \<exists>s\<in>set (strokes x y w h). covers s q) CROSSHAIR_COLOR))"
  by (simp add: renderCrossHair_run_strokes run_strokes_cv[OF _ strokes_colour])

lemma render_cv_None:
  "list_all stroke_args_ok (strokes x y w h) \<Longrightarrow>
   renderCrossHair cv_line cv_circle None x y w h = Inr None"
  by (simp add: renderCrossHair_run_strokes run_strokes_cv_None)

lemma render_cv_bad:
  "\<not> list_all stroke_args_ok (strokes x y w h) \<Longrightarrow>
   renderCrossHair cv_line cv_circle fr x y w h = Inl BadArgument"
  by (simp add: renderCrossHair_run_strokes run_strokes_cv_bad)

lemma has_size_blank: "has_size (blank w h col) w h"
  by (simp add: has_size_def blank_def del: not_None_eq)

lemma has_size_inside:
  "has_size m w h \<Longrightarrow> (m q \<noteq> None) = (0 \<le> fst q \<and> fst q < w \<and> 0 \<le> snd q \<and> snd q < h)"
  unfolding has_size_def by blast

lemma painted_pixel:
  assumes "has_size m w h" "list_all stroke_args_ok (strokes x y w h)"
    and "0 \<le> fst q" "fst q < w" "0 \<le> snd q" "snd q < h"
  shows "result_pixel (renderCrossHair cv_line cv_circle (Some m) x y w h) q =
           (if \<exists>s\<in>set (strokes x y w h). covers s q then Some CROSSHAIR_COLOR else m q)"
proof -
  have "m q \<noteq> None" using has_size_inside[OF assms(1), of q] assms(3-6) by simp
  then show ?thesis
    by (auto simp: render_cv[OF assms(2)] result_pixel_def pixel_of_def paint_def)
qed


section \<open>Overlay renderer: the gap between the arms\<close>

lemma interior_args_ok:
  assumes "c_int w" "c_int h" "33 \<le> x" "x \<le> w - 34" "33 \<le> y" "y \<le> h - 34"
  shows "list_all stroke_args_ok (strokes x y w h)"
  using assms by (simp add: strokes_eq c_int_def)

lemma covered_on_row:
  assumes "33 \<le> x" "x \<le> w - 34" "33 \<le> y" "y \<le> h - 34" "x - 10 \<le> c" "c \<le> x + 10"
  shows "(\<exists>s\<in>set (strokes x y w h). covers s (c, y)) = (\<not> (2 \<le> \<bar>c - x\<bar> \<and> \<bar>c - x\<bar> \<le> 9))"
proof (cases "2 \<le> \<bar>c - x\<bar> \<and> \<bar>c - x\<bar> \<le> 9")
  case True
  with assms have "\<forall>s\<in>set (strokes x y w h). \<not> stroke_reach s (c, y)"
    by (auto simp: strokes_eq near_box_def reach_def)
  with True show ?thesis using covers_reach by blast
next
  case False
  then consider "c = x - 10" | "c = x + 10" | "c = x - 1" | "c = x" | "c = x + 1"
    using assms(5,6) by linarith
  then have "\<exists>s\<in>set (strokes x y w h). covers s (c, y)"
  proof cases
    case 1
    have "covers (Line (0, y) (x - 10, y) CROSSHAIR_COLOR 1) (c, y)"
      using 1 assms by (simp add: reach_def in_stroke_thin on_segment_def between_def)
    then show ?thesis by (rule rev_bexI[rotated]) (simp add: strokes_eq)
  next
    case 2
    have "covers (Line (x + 10, y) (w - 1, y) CROSSHAIR_COLOR 1) (c, y)"
      using 2 assms by (simp add: reach_def in_stroke_thin on_segment_def between_def)
    then show ?thesis by (rule rev_bexI[rotated]) (simp add: strokes_eq)
  next
    case 3
    have "covers (Circle (x, y) 1 CROSSHAIR_COLOR (- 1)) (c, y)"
      using 3 by (simp add: in_disc_def)
    then show ?thesis by (rule rev_bexI[rotated]) (simp add: strokes_eq)
  next
    case 4
    have "covers (Circle (x, y) 1 CROSSHAIR_COLOR (- 1)) (c, y)"
      using 4 by (simp add: in_disc_def)
    then show ?thesis by (rule rev_bexI[rotated]) (simp add: strokes_eq)
  next
    case 5
    have "covers (Circle (x, y) 1 CROSSHAIR_COLOR (- 1)) (c, y)"
      using 5 by (simp add: in_disc_def)
    then show ?thesis by (rule rev_bexI[rotated]) (simp add: strokes_eq)
  qed
  with False show ?thesis by simp
qed

lemma covered_on_column:
  assumes "33 \<le> x" "x \<le> w - 34" "33 \<le> y" "y \<le> h - 34" "y - 10 \<le> r" "r \<le> y + 10"
  shows "(\<exists>s\<in>set (strokes x y w h). covers s (x, r)) = (\<not> (2 \<le> \<bar>r - y\<bar> \<and> \<bar>r - y\<bar> \<le> 9))"
proof (cases "2 \<le> \<bar>r - y\<bar> \<and> \<bar>r - y\<bar> \<le> 9")
  case True
  with assms have "\<forall>s\<in>set (strokes x y w h). \<not> stroke_reach s (x, r)"
    by (auto simp: strokes_eq near_box_def reach_def)
  with True show ?thesis using covers_reach by blast
next
  case False
  then consider "r = y - 10" | "r = y + 10" | "r = y - 1" | "r = y" | "r = y + 1"
    using assms(5,6) by linarith
  then have "\<exists>s\<in>set (strokes x y w h). covers s (x, r)"
  proof cases
    case 1
    have "covers (Line (x, 0) (x, y - 10) CROSSHAIR_COLOR 1) (x, r)"
      using 1 assms by (simp add: reach_def in_stroke_thin on_segment_def between_def)
    then show ?thesis by (rule rev_bexI[rotated]) (simp add: strokes_eq)
  next
    case 2
    have "covers (Line (x, y + 10) (x, h - 1) CROSSHAIR_COLOR 1) (x, r)"
      using 2 assms by (simp add: reach_def in_stroke_thin on_segment_def between_def)
    then show ?thesis by (rule rev_bexI[rotated]) (simp add: strokes_eq)
  next
    case 3
    have "covers (Circle (x, y) 1 CROSSHAIR_COLOR (- 1)) (x, r)"
      using 3 by (simp add: in_disc_def)
    then show ?thesis by (rule rev_bexI[rotated]) (simp add: strokes_eq)
  next
    case 4
    have "covers (Circle (x, y) 1 CROSSHAIR_COLOR (- 1)) (x, r)"
      using 4 by (simp add: in_disc_def)
    then show ?thesis by (rule rev_bexI[rotated]) (simp add: strokes_eq)
  next
    case 5
    have "covers (Circle (x, y) 1 CROSSHAIR_COLOR (- 1)) (x, r)"
      using 5 by (simp add: in_disc_def)
    then show ?thesis by (rule rev_bexI[rotated]) (simp add: strokes_eq)
  qed
  with False show ?thesis by simp
qed

text \<open>
  C2, as the specification states it, fails: the interval between the arm tips is not
  unpainted. On a black 640 by 480 frame with the crosshair at the centre, the pixels
  (320, 240) and (310, 240) of row 240, both in [310, 330], are painted (the centre disc
  and the tip of the left arm); with the crosshair at (15, 100), pixel (10, 100), in
  [5, 25], is painted by the accent tick of the left edge.
\<close>

theorem C2_counterexample:
  "result_pixel (renderCrossHair cv_line cv_circle (Some (blank 640 480 black)) 320 240 640 480)
      (320, 240) = Some CROSSHAIR_COLOR
   \<and> result_pixel (renderCrossHair cv_line cv_circle (Some (blank 640 480 black)) 320 240 640 480)
      (310, 240) = Some CROSSHAIR_COLOR
   \<and> result_pixel (renderCrossHair cv_line cv_circle (Some (blank 640 480 black)) 15 100 640 480)
      (10, 100) = Some CROSSHAIR_COLOR
   \<and> pixel_of (Some (blank 640 480 black)) (320, 240) = Some black
   \<and> pixel_of (Some (blank 640 480 black)) (310, 240) = Some black
   \<and> pixel_of (Some (blank 640 480 black)) (10, 100) = Some black
   \<and> black \<noteq> CROSSHAIR_COLOR"
proof -
  have ok: "list_all stroke_args_ok (strokes 320 240 640 480)"
      "list_all stroke_args_ok (strokes 15 100 640 480)"
    by (simp_all add: strokes_eq c_int_def)
  have a: "\<exists>s\<in>set (strokes 320 240 640 480). covers s (320, 240)"
    by (rule bexI[of _ "Circle (320, 240) 1 CROSSHAIR_COLOR (- 1)"])
       (simp_all add: strokes_eq in_disc_def)
  have b: "\<exists>s\<in>set (strokes 320 240 640 480). covers s (310, 240)"
    by (rule bexI[of _ "Line (0, 240) (310, 240) CROSSHAIR_COLOR 1"])
       (simp_all add: strokes_eq reach_def in_stroke_thin on_segment_def between_def)
  have c: "\<exists>s\<in>set (strokes 15 100 640 480). covers s (10, 100)"
    by (rule bexI[of _ "Line (0, 100) (20, 100) CROSSHAIR_COLOR 3"])
       (simp_all add: strokes_eq reach_def on_segment_in_stroke on_segment_def between_def)
  have "result_pixel
      (renderCrossHair cv_line cv_circle (Some (blank 640 480 black)) 320 240 640 480)
      (320, 240) = Some CROSSHAIR_COLOR"
    using painted_pixel[OF has_size_blank ok(1), of "(320, 240)" black] a by simp
  moreover have "result_pixel
      (renderCrossHair cv_line cv_circle (Some (blank 640 480 black)) 320 240 640 480)
      (310, 240) = Some CROSSHAIR_COLOR"
    using painted_pixel[OF has_size_blank ok(1), of "(310, 240)" black] b by simp
  moreover have "result_pixel
      (renderCrossHair cv_line cv_circle (Some (blank 640 480 black)) 15 100 640 480)
      (10, 100) = Some CROSSHAIR_COLOR"
    using painted_pixel[OF has_size_blank ok(2), of "(10, 100)" black] c by simp
  ultimately show ?thesis
    by (simp add: pixel_of_def blank_def black_def CROSSHAIR_COLOR_def)
qed

text \<open>
  C2, amended. The 1px lines among the calls are exactly four, in the crosshair colour:
  on row y from column 0 to column x - 10 and from column x + 10 to column
  imageWidth - 1, on column x from row 0 to row y - 10 and from row y + 10 to row
  imageHeight - 1. On the reference canvas, with the crosshair at least 33 pixels from
  every edge of the frame, the pixels of row y between the arm tips (columns x - 10 to
  x + 10) that keep their colour are the columns 2 to 9 away from x; the tips x - 10 and
  x + 10 and the centre disc x - 1 to x + 1 are painted. Likewise for the rows of
  column x.
\<close>

theorem C2_arms_and_gap:
  assumes "has_size m w h" and "c_int w" and "c_int h"
    and "33 \<le> x" and "x \<le> w - 34" and "33 \<le> y" and "y \<le> h - 34"
    and "x - 10 \<le> c" and "c \<le> x + 10" and "y - 10 \<le> r" and "r \<le> y + 10"
  shows "arms x y w h =
           [Line (0, y) (x - 10, y) CROSSHAIR_COLOR 1,
            Line (x + 10, y) (w - 1, y) CROSSHAIR_COLOR 1,
            Line (x, 0) (x, y - 10) CROSSHAIR_COLOR 1,
            Line (x, y + 10) (x, h - 1) CROSSHAIR_COLOR 1]
       \<and> result_pixel (renderCrossHair cv_line cv_circle (Some m) x y w h) (c, y) =
           (if 2 \<le> \<bar>c - x\<bar> \<and> \<bar>c - x\<bar> \<le> 9 then m (c, y) else Some CROSSHAIR_COLOR)
       \<and> result_pixel (renderCrossHair cv_line cv_circle (Some m) x y w h) (x, r) =
           (if 2 \<le> \<bar>r - y\<bar> \<and> \<bar>r - y\<bar> \<le> 9 then m (x, r) else Some CROSSHAIR_COLOR)"
proof -
  have ok: "list_all stroke_args_ok (strokes x y w h)"
    using assms(2-7) by (rule interior_args_ok)
  have row: "result_pixel (renderCrossHair cv_line cv_circle (Some m) x y w h) (c, y) =
           (if 2 \<le> \<bar>c - x\<bar> \<and> \<bar>c - x\<bar> \<le> 9 then m (c, y) else Some CROSSHAIR_COLOR)"
    using assms(4-9)
    by (subst painted_pixel[OF assms(1) ok])
       (simp_all add: covered_on_row[OF assms(4-9)])
  have col: "result_pixel (renderCrossHair cv_line cv_circle (Some m) x y w h) (x, r) =
           (if 2 \<le> \<bar>r - y\<bar> \<and> \<bar>r - y\<bar> \<le> 9 then m (x, r) else Some CROSSHAIR_COLOR)"
    using assms(4-7,10,11)
    by (subst painted_pixel[OF assms(1) ok])
       (simp_all add: covered_on_column[OF assms(4-7,10,11)])
  show ?thesis using row col by (simp add: arms_def strokes_eq)
qed

text \<open>
  The hypotheses of C2 hold on a black 640 by 480 frame with the crosshair at
  (320, 240): pixel (315, 240) stays black, pixel (320, 250) is painted.
\<close>

theorem C2_witness:
  "result_pixel (renderCrossHair cv_line cv_circle (Some (blank 640 480 black)) 320 240 640 480)
      (315, 240) = Some black
   \<and> result_pixel (renderCrossHair cv_line cv_circle (Some (blank 640 480 black)) 320 240 640 480)
      (320, 250) = Some CROSSHAIR_COLOR"
proof -
  have ci: "c_int 640" "c_int 480" by (simp_all add: c_int_def)
  show ?thesis
    using C2_arms_and_gap[OF has_size_blank ci, of 320 240 315 250 black]
    by (simp add: blank_def)
qed


section \<open>Overlay renderer: frame effect\<close>

lemma strokes_out_of_reach:
  "2 < \<bar>fst q - x\<bar> \<Longrightarrow> 2 < \<bar>snd q - y\<bar> \<Longrightarrow> \<forall>s\<in>set (strokes x y w h). \<not> stroke_reach s q"
  by (auto simp: strokes_eq near_box_def reach_def)

text \<open>
  C10, as stated, fails: a 3px accent tick reaches two pixels to either side of its
  segment. On a black 640 by 480 frame with the crosshair at (320, 240), pixel (10, 238)
  is more than one column from column 320 and more than one row from row 240, and the
  rendering paints it.
\<close>

theorem C10_counterexample:
  "result_pixel (renderCrossHair cv_line cv_circle (Some (blank 640 480 black)) 320 240 640 480)
      (10, 238) = Some CROSSHAIR_COLOR
   \<and> pixel_of (Some (blank 640 480 black)) (10, 238) = Some black
   \<and> black \<noteq> CROSSHAIR_COLOR
   \<and> 1 < \<bar>10 - 320 :: int\<bar> \<and> 1 < \<bar>238 - 240 :: int\<bar>"
proof -
  have ok: "list_all stroke_args_ok (strokes 320 240 640 480)"
    by (simp add: strokes_eq c_int_def)
  have tick: "covers (Line (0, 240) (20, 240) CROSSHAIR_COLOR 3) (10, 238)"
    by (simp add: in_stroke_def on_segment_def between_def reach_def)
  have "\<exists>s\<in>set (strokes 320 240 640 480). covers s (10, 238)"
    by (rule bexI[of _ "Line (0, 240) (20, 240) CROSSHAIR_COLOR 3"])
       (simp_all add: tick strokes_eq del: covers.simps)
  then have "result_pixel
      (renderCrossHair cv_line cv_circle (Some (blank 640 480 black)) 320 240 640 480)
      (10, 238) = Some CROSSHAIR_COLOR"
    using painted_pixel[OF has_size_blank ok, of "(10, 238)" black] by simp
  then show ?thesis
    by (simp add: pixel_of_def blank_def black_def CROSSHAIR_COLOR_def)
qed

text \<open>
  C10, amended. On the reference canvas a rendering that returns changes no pixel
  that is more than two columns away from column x and more than two rows away from
  row y: the bands are five pixels wide, not three.
\<close>

theorem C10_changes_only_the_bands:
  assumes "renderCrossHair cv_line cv_circle fr x y w h = Inr out"
    and "2 < \<bar>fst q - x\<bar>" and "2 < \<bar>snd q - y\<bar>"
  shows "pixel_of out q = pixel_of fr q"
proof (cases "list_all stroke_args_ok (strokes x y w h)")
  case False
  with assms(1) show ?thesis by (simp add: render_cv_bad)
next
  case True
  show ?thesis
  proof (cases fr)
    case None
    with True assms(1) show ?thesis by (simp add: render_cv_None)
  next
    case (Some m)
    have "\<not> (\<exists>s\<in>set (strokes x y w h). covers s q)"
      using strokes_out_of_reach[OF assms(2,3)] covers_reach by blast
    with Some True assms(1) show ?thesis
      by (auto simp: render_cv pixel_of_def paint_def split: option.splits)
  qed
qed

text \<open>
  On a black 640 by 480 frame with the crosshair at the centre, pixel (100, 100) lies
  outside both bands and keeps its colour.
\<close>

theorem C10_witness:
  "\<exists>out. renderCrossHair cv_line cv_circle (Some (blank 640 480 black)) 320 240 640 480 = Inr out
     \<and> pixel_of out (100, 100) = Some black"
proof -
  have ok: "list_all stroke_args_ok (strokes 320 240 640 480)"
    by (simp add: strokes_eq c_int_def)
  obtain out where
    out: "renderCrossHair cv_line cv_circle (Some (blank 640 480 black)) 320 240 640 480 = Inr out"
    by (simp add: render_cv[OF ok])
  have "pixel_of out (100, 100) = pixel_of (Some (blank 640 480 black)) (100, 100)"
    by (rule C10_changes_only_the_bands[OF out]) simp_all
  then have "pixel_of out (100, 100) = Some black"
    by (simp add: pixel_of_def blank_def)
  with out show ?thesis by blast
qed


section \<open>Overlay renderer: errors and reversed segments\<close>














section \<open>Overlay renderer: no state between calls\<close>

lemma run_strokes_cong:
  assumes line_cong: "\<And>a b p1 p2 col t. content a = content b \<Longrightarrow>
             same_outcome content (line a p1 p2 col t) (line b p1 p2 col t)"
    and circle_cong: "\<And>a b c r col t. content a = content b \<Longrightarrow>
             same_outcome content (circle a c r col t) (circle b c r col t)"
  shows "content a = content b \<Longrightarrow>
         same_outcome content (run_strokes line circle ss a) (run_strokes line circle ss b)"
proof (induction ss arbitrary: a b)
  case Nil
  then show ?case by (simp add: same_outcome_def)
next
  case (Cons s ss)
  have step: "same_outcome content (apply_stroke line circle s a) (apply_stroke line circle s b)"
    using Cons.prems by (cases s) (simp_all add: line_cong circle_cong)
  show ?case
  proof (cases "apply_stroke line circle s a")
    case (Inl e)
    with step show ?thesis
      by (auto simp: same_outcome_def bind_err_def split: sum.splits)
  next
    case (Inr a')
    with step obtain b' where b': "apply_stroke line circle s b = Inr b'" "content a' = content b'"
      by (auto simp: same_outcome_def split: sum.splits)
    with Inr Cons.IH[OF b'(2)] show ?thesis by (simp add: bind_err_def)
  qed
qed

text \<open>
  C9. The renderer keeps nothing between calls and reads nothing but its arguments: with
  primitives whose outcome depends on the content of the canvas alone, two calls with
  the same x, y, imageWidth and imageHeight on frames of the same content have the same
  outcome, the same error or canvases of the same content.
\<close>

theorem C9_output_determined_by_inputs:
  assumes "\<And>a b p1 p2 col t. content a = content b \<Longrightarrow>
             same_outcome content (line a p1 p2 col t) (line b p1 p2 col t)"
    and "\<And>a b c r col t. content a = content b \<Longrightarrow>
             same_outcome content (circle a c r col t) (circle b c r col t)"
    and "content fr1 = content fr2"
  shows "same_outcome content (renderCrossHair line circle fr1 x y w h)
                              (renderCrossHair line circle fr2 x y w h)"
  unfolding renderCrossHair_run_strokes
  using assms(1,2) assms(3) by (rule run_strokes_cong)

text \<open>
  The hypotheses of C9 hold for the reference primitives, with the whole frame value as
  content, on two ways of writing the same blank frame.
\<close>

theorem C9_witness:
  "same_outcome (\<lambda>fr. fr)
     (renderCrossHair cv_line cv_circle (Some (blank 640 480 black)) 320 240 640 480)
     (renderCrossHair cv_line cv_circle
        (Some (paint (blank 640 480 black) (\<lambda>q. False) CROSSHAIR_COLOR)) 320 240 640 480)"
proof (rule C9_output_determined_by_inputs)
  show "Some (blank 640 480 black) = Some (paint (blank 640 480 black) (\<lambda>q. False) CROSSHAIR_COLOR)"
    by (simp add: paint_none)
next
  fix a b :: "image option" and p1 p2 col t
  assume "a = b"
  then show "same_outcome (\<lambda>fr. fr) (cv_line a p1 p2 col t) (cv_line b p1 p2 col t)"
    by (simp add: same_outcome_def split: sum.splits)
next
  fix a b :: "image option" and c r col t
  assume "a = b"
  then show "same_outcome (\<lambda>fr. fr) (cv_circle a c r col t) (cv_circle b c r col t)"
    by (simp add: same_outcome_def split: sum.splits)
qed


section \<open>Frame buffer: what read returns\<close>

lemma update_frame:
  "\<not> stopped vs \<Longrightarrow>
   update n vs = (if n = 0 then vs
      else vs\<lparr>stream := (stream vs)\<lparr>served := served (stream vs) + n\<rparr>,
              grabbed := fst (acquisitions (stream vs) (served (stream vs) + n - 1)),
              frame := snd (acquisitions (stream vs) (served (stream vs) + n - 1))\<rparr>)"
proof (induction n arbitrary: vs)
  case 0
  show ?case by simp
next
  case (Suc n)
  show ?case
    using Suc.prems
    by (cases "n = 0") (simp_all add: Suc.IH cap_read_def)
qed

text \<open>
  C3, as the specification states it, fails: the camera delivers a first frame, the
  constructor stores it (\<open>grabbed\<close> is true, \<open>read\<close> returns an image), the next
  acquisition of the update loop fails, and \<open>read\<close> returns \<open>None\<close>.
\<close>

theorem C3_counterexample:
  "grabbed (start (VideoStream_init failing_camera))
   \<and> read (start (VideoStream_init failing_camera)) \<noteq> None
   \<and> read (update 1 (start (VideoStream_init failing_camera))) = None"
  by (simp add: failing_camera_def start_def VideoStream_init_def cap_read_def read_def)

text \<open>
  C3, amended. \<open>read\<close> is a field access, so it always returns at once; after n rounds
  of the update loop it returns the frame value of the most recent acquisition (the
  constructor's when n is 0), whether that acquisition succeeded or not.
\<close>

theorem C3_read_latest:
  "read (update n (start (VideoStream_init device))) = snd (acquisitions device (served device + n))"
proof -
  have running: "\<not> stopped (start (VideoStream_init device))"
    by (simp add: start_def VideoStream_init_def cap_read_def)
  show ?thesis
    unfolding read_def update_frame[OF running]
    by (simp add: start_def VideoStream_init_def cap_read_def)
qed


section \<open>Start-up and render loop: what the script does\<close>

lemma startup_eq:
  "startup device =
     \<lparr>capture = \<lparr>stream = device\<lparr>served := served device + 1, opened := opened device \<or> reopens device\<rparr>,
                 grabbed = fst (acquisitions device (served device)),
                 frame = snd (acquisitions device (served device)),
                 stopped = False\<rparr>,
      imageWidth = py_int (properties device CV_CAP_PROP_FRAME_WIDTH),
      imageHeight = py_int (properties device CV_CAP_PROP_FRAME_HEIGHT),
      mouse = \<lparr>crossHairX = PyFloat (rat_of_int (py_int (properties device CV_CAP_PROP_FRAME_WIDTH)) / 2),
                crossHairY = PyFloat (rat_of_int (py_int (properties device CV_CAP_PROP_FRAME_HEIGHT)) / 2),
                mouseDown = False\<rparr>,
      window = None\<rparr>"
  by (auto simp: startup_def start_def VideoStream_init_def cap_read_def cap_isOpened_def
      cap_open_def defaultCrossHair_def cap_get_def Let_def py_truediv_def)





text \<open>
  C6. The code does not do what the claim and its own documentation (\<open>@rtype: int,
  int, int, int\<close>) say: after start-up the crosshair coordinates are floats, half the
  reported width and height. For a 640 by 480 source they are 320.0 and 240.0, for a 641
  by 481 source 320.5 and 240.5. The first pass of the loop hands them to the renderer,
  whose first drawing call is refused.
\<close>

theorem C6_crosshair_starts_as_floats:
  "crossHairX (mouse (startup device)) = PyFloat (rat_of_int (imageWidth (startup device)) / 2)
   \<and> crossHairY (mouse (startup device)) = PyFloat (rat_of_int (imageHeight (startup device)) / 2)
   \<and> crossHairX (mouse (startup failing_camera)) = PyFloat 320
   \<and> crossHairY (mouse (startup failing_camera)) = PyFloat 240
   \<and> crossHairX (mouse (startup odd_camera)) = PyFloat (641 / 2)
   \<and> crossHairY (mouse (startup odd_camera)) = PyFloat (481 / 2)
   \<and> main cv_line cv_circle cv_imshow failing_camera [(0, [], - 1)] = Crashed BadArgument"
  by (simp add: startup_eq main_def iteration_def failing_camera_def odd_camera_def py_int_def
      CV_CAP_PROP_FRAME_WIDTH_def CV_CAP_PROP_FRAME_HEIGHT_def read_def)

text \<open>
  C7, as the specification states it, fails. With the camera that cannot be opened,
  start-up returns normally: the capture is still closed, the initial frame is null, the
  frame size is 0 by 0, and the script is in its loop. (The first pass then ends in an
  exception.)
\<close>

theorem C7_counterexample:
  "\<not> cap_isOpened (stream (capture (startup dead_camera)))
   \<and> read (capture (startup dead_camera)) = None
   \<and> imageWidth (startup dead_camera) = 0
   \<and> imageHeight (startup dead_camera) = 0
   \<and> main cv_line cv_circle cv_imshow dead_camera [] = Running (startup dead_camera)
   \<and> crashed (main cv_line cv_circle cv_imshow dead_camera [(0, [], - 1)])"
  by (simp add: main_def iteration_def startup_eq dead_camera_def read_def cap_isOpened_def
      py_int_def)

text \<open>
  C7, amended. Start-up has no exit: for every camera the script reaches the render
  loop. The capture is open there exactly when it was open after construction or the
  single \<open>open(0)\<close> retry succeeded; the initial frame and flag are those of the
  constructor's read, valid or not; the frame size is whatever the source reports.
\<close>

theorem C7_startup_always_reaches_the_loop:
  "main line circle imshow device [] = Running (startup device)
   \<and> cap_isOpened (stream (capture (startup device))) = (opened device \<or> reopens device)
   \<and> read (capture (startup device)) = snd (acquisitions device (served device))
   \<and> grabbed (capture (startup device)) = fst (acquisitions device (served device))
   \<and> imageWidth (startup device) = py_int (cap_get device CV_CAP_PROP_FRAME_WIDTH)
   \<and> imageHeight (startup device) = py_int (cap_get device CV_CAP_PROP_FRAME_HEIGHT)"
  by (simp add: main_def startup_eq read_def cap_isOpened_def cap_get_def)

end
